theory Spec2Isabelle
  imports Main
begin

section \<open>docker-cloud: the instance lifecycle on Google Compute Engine\<close>

text \<open>
  The Go package \<^verbatim>\<open>dockercloud\<close> (the \<^verbatim>\<open>GCECloud\<close> implementation) and the
  command \<^verbatim>\<open>docker-cloud\<close> (\<^verbatim>\<open>main\<close>) are embedded as functions from a world to an
  outcome and the world afterwards. The world holds what the compute provider and the
  operating system will answer, and the trace of the calls the program has issued.
  Log and progress output (\<^verbatim>\<open>log.Printf\<close>, \<^verbatim>\<open>fmt.Print\<close>) has no influence on control
  flow and is left out of the trace.
\<close>

subsection \<open>Values of the compute API\<close>

text \<open>
  Only the fields that the program reads or writes are kept. A Go pointer is an
  \<open>option\<close> (\<open>None\<close> is \<^verbatim>\<open>nil\<close>); a slice of pointers is a list of options.
\<close>

record AccessConfig =
  ac_Type :: string
  ac_NatIP :: string

record NetworkInterface =
  ni_AccessConfigs :: "AccessConfig option list"
  ni_Network :: string

record AttachedDisk =
  ad_Boot :: bool
  ad_Type :: string
  ad_Mode :: string
  ad_Source :: string

record MetadataItems =
  mi_Key :: string
  mi_Value :: string

record Metadata =
  md_Items :: "MetadataItems option list"

record Instance =
  inst_Name :: string
  inst_Description :: string
  inst_MachineType :: string
  inst_Disks :: "AttachedDisk option list"
  inst_NetworkInterfaces :: "NetworkInterface option list"
  inst_Metadata :: "Metadata option"

record Disk =
  disk_Name :: string
  disk_SelfLink :: string

record Operation =
  op_Name :: string
  op_Status :: string
  op_TargetLink :: string

text \<open>
  An \<^verbatim>\<open>error\<close> value is either one that the provider (or the operating system) handed
  back, or the one \<^verbatim>\<open>waitForOp\<close> builds with
  \<^verbatim>\<open>errors.New(fmt.Sprintf("Bad operation: %s", op))\<close>; the latter carries the
  operation instead of its rendering.
\<close>

datatype error = ApiError string | BadOperation Operation

text \<open>
  The result of \<^verbatim>\<open>...Do()\<close> is the Go pair of a pointer and an error; \<open>None\<close> in the
  second component is the \<^verbatim>\<open>nil\<close> error. The provider's client hands back a nil
  pointer whenever it hands back an error; the Go type admits every combination, and so
  does the model.
\<close>

type_synonym 'a reply = "'a option \<times> error option"

text \<open>\<^verbatim>\<open>cmd.Run()\<close> leaves the process handle in \<^verbatim>\<open>cmd.Process\<close> and returns an error.\<close>

record run_result =
  run_Process :: "nat option"
  run_error :: "error option"

subsection \<open>Flags\<close>

record gce_flags =
  projectId_flag :: string
  instanceType :: string
  image_flag :: string
  diskName :: string
  diskSizeGb :: int

record main_flags =
  dockerPort :: int
  tunnelPort :: int
  instanceName :: string
  zone_flag :: string

definition default_gce_flags :: gce_flags where
  "default_gce_flags =
     \<lparr>projectId_flag = '''',
      instanceType = ''/zones/us-central1-a/machineTypes/n1-standard-1'',
      image_flag = ''https://www.googleapis.com/compute/v1/projects/debian-cloud/global/images/backports-debian-7-wheezy-v20131127'',
      diskName = ''docker-root'',
      diskSizeGb = 100\<rparr>"

definition default_main_flags :: main_flags where
  "default_main_flags =
     \<lparr>dockerPort = 8000, tunnelPort = 8001,
      instanceName = ''docker-instance'', zone_flag = ''us-central1-a''\<rparr>"

definition startup :: string where
  \<open>startup = ''#!/bin/bash'' @ [CHR 0x0A] @
     ''sysctl -w net.ipv4.ip_forward=1'' @ [CHR 0x0A] @
     ''wget -qO- https://get.docker.io/ | sh'' @ [CHR 0x0A] @
     ''echo '' @ [CHR 0x27] @ ''DOCKER_OPTS="-H :8000 -mtu 1460"'' @ [CHR 0x27] @
       '' >> /etc/default/docker'' @ [CHR 0x0A] @
     ''service docker restart && echo "docker restarted on port :8000"'' @ [CHR 0x0A]\<close>

record GCECloud =
  projectId :: string

subsection \<open>The world: provider answers, environment, trace\<close>

text \<open>
  Every call that leaves the process is an event. \<open>DisksDelete\<close> is part of the
  provider's interface; it is listed so that its absence from a trace can be stated.
\<close>

datatype event =
    InstancesGet string string string
  | InstancesInsert string string Instance
  | InstancesDelete string string string
  | DisksGet string string string
  | DisksInsert string string Disk string
  | DisksDelete string string string
  | ZoneOperationsGet string string string
  | Sleep nat
  | ExecRun string "string list"

fun is_mutation :: "event \<Rightarrow> bool" where
  "is_mutation (InstancesInsert p z i) = True"
| "is_mutation (InstancesDelete p z n) = True"
| "is_mutation (DisksInsert p z d s) = True"
| "is_mutation (DisksDelete p z n) = True"
| "is_mutation e = False"

fun is_instance_mutation :: "event \<Rightarrow> bool" where
  "is_instance_mutation (InstancesInsert p z i) = True"
| "is_instance_mutation (InstancesDelete p z n) = True"
| "is_instance_mutation e = False"

fun is_create :: "event \<Rightarrow> bool" where
  "is_create (InstancesInsert p z i) = True"
| "is_create (DisksInsert p z d s) = True"
| "is_create e = False"

fun is_DisksInsert :: "event \<Rightarrow> bool" where
  "is_DisksInsert (DisksInsert p z d s) = True"
| "is_DisksInsert e = False"

fun is_ExecRun :: "event \<Rightarrow> bool" where
  "is_ExecRun (ExecRun c args) = True"
| "is_ExecRun e = False"

text \<open>
  For each endpoint the world holds the answers the provider will give to the successive
  calls of that endpoint, in order. A call whose list of answers is used up does not
  return: the run is cut there with outcome \<open>Blocked\<close>.
\<close>

record world =
  instances_get :: "Instance reply list"
  instances_insert :: "Operation reply list"
  instances_delete :: "Operation reply list"
  disks_get :: "Disk reply list"
  disks_insert :: "Operation reply list"
  zoneops_get :: "Operation reply list"
  exec_run :: "run_result list"
  environ :: "string \<Rightarrow> string"
  trace :: "event list"

datatype panic = NilDereference | IndexOutOfRange

text \<open>
  How a call ends: it returns a value, it panics, it never returns, or the process is
  ended with an exit status (\<^verbatim>\<open>log.Fatalf\<close> exits with status 1).
\<close>

datatype 'a outcome = Returned 'a | Panicked panic | Blocked | Exited int

text \<open>Sequencing: only a call that returns lets the caller go on.\<close>

definition andThen :: "'a outcome \<times> world \<Rightarrow> ('a \<Rightarrow> world \<Rightarrow> 'b outcome \<times> world) \<Rightarrow> 'b outcome \<times> world" where
  "andThen r k =
     (case r of
        (Returned a, w) \<Rightarrow> k a w
      | (Panicked p, w) \<Rightarrow> (Panicked p, w)
      | (Blocked, w) \<Rightarrow> (Blocked, w)
      | (Exited n, w) \<Rightarrow> (Exited n, w))"

definition emit :: "event \<Rightarrow> world \<Rightarrow> world" where
  "emit e w = w\<lparr>trace := trace w @ [e]\<rparr>"

definition Instances_Get :: "string \<Rightarrow> string \<Rightarrow> string \<Rightarrow> world \<Rightarrow> Instance reply outcome \<times> world" where
  "Instances_Get project zone name w =
     (case instances_get w of
        [] \<Rightarrow> (Blocked, emit (InstancesGet project zone name) w)
      | r # rs \<Rightarrow> (Returned r, emit (InstancesGet project zone name) (w\<lparr>instances_get := rs\<rparr>)))"

definition Instances_Insert :: "string \<Rightarrow> string \<Rightarrow> Instance \<Rightarrow> world \<Rightarrow> Operation reply outcome \<times> world" where
  "Instances_Insert project zone inst w =
     (case instances_insert w of
        [] \<Rightarrow> (Blocked, emit (InstancesInsert project zone inst) w)
      | r # rs \<Rightarrow> (Returned r, emit (InstancesInsert project zone inst) (w\<lparr>instances_insert := rs\<rparr>)))"

definition Instances_Delete :: "string \<Rightarrow> string \<Rightarrow> string \<Rightarrow> world \<Rightarrow> Operation reply outcome \<times> world" where
  "Instances_Delete project zone name w =
     (case instances_delete w of
        [] \<Rightarrow> (Blocked, emit (InstancesDelete project zone name) w)
      | r # rs \<Rightarrow> (Returned r, emit (InstancesDelete project zone name) (w\<lparr>instances_delete := rs\<rparr>)))"

definition Disks_Get :: "string \<Rightarrow> string \<Rightarrow> string \<Rightarrow> world \<Rightarrow> Disk reply outcome \<times> world" where
  "Disks_Get project zone name w =
     (case disks_get w of
        [] \<Rightarrow> (Blocked, emit (DisksGet project zone name) w)
      | r # rs \<Rightarrow> (Returned r, emit (DisksGet project zone name) (w\<lparr>disks_get := rs\<rparr>)))"

definition Disks_Insert :: "string \<Rightarrow> string \<Rightarrow> Disk \<Rightarrow> string \<Rightarrow> world \<Rightarrow> Operation reply outcome \<times> world" where
  "Disks_Insert project zone d sourceImage w =
     (case disks_insert w of
        [] \<Rightarrow> (Blocked, emit (DisksInsert project zone d sourceImage) w)
      | r # rs \<Rightarrow> (Returned r, emit (DisksInsert project zone d sourceImage) (w\<lparr>disks_insert := rs\<rparr>)))"

definition ZoneOperations_Get :: "string \<Rightarrow> string \<Rightarrow> string \<Rightarrow> world \<Rightarrow> Operation reply outcome \<times> world" where
  "ZoneOperations_Get project zone name w =
     (case zoneops_get w of
        [] \<Rightarrow> (Blocked, emit (ZoneOperationsGet project zone name) w)
      | r # rs \<Rightarrow> (Returned r, emit (ZoneOperationsGet project zone name) (w\<lparr>zoneops_get := rs\<rparr>)))"

definition time_Sleep :: "nat \<Rightarrow> world \<Rightarrow> world" where
  "time_Sleep seconds w = emit (Sleep seconds) w"

definition cmd_Run :: "string \<Rightarrow> string list \<Rightarrow> world \<Rightarrow> run_result outcome \<times> world" where
  "cmd_Run command args w =
     (case exec_run w of
        [] \<Rightarrow> (Blocked, emit (ExecRun command args) w)
      | r # rs \<Rightarrow> (Returned r, emit (ExecRun command args) (w\<lparr>exec_run := rs\<rparr>)))"

subsection \<open>The operation poller\<close>

text \<open>
  The \<^verbatim>\<open>for\<close> loop of \<^verbatim>\<open>waitForOp\<close>, entered with the loop variables \<^verbatim>\<open>op\<close> and
  \<^verbatim>\<open>err\<close>. Reading \<^verbatim>\<open>op.Status\<close> or \<^verbatim>\<open>op.Name\<close> through a nil pointer panics.
\<close>

function waitLoop :: "GCECloud \<Rightarrow> string \<Rightarrow> Operation option \<Rightarrow> error option \<Rightarrow> world \<Rightarrow> error option outcome \<times> world" where
  "waitLoop cloud zone op err w =
     (case op of
        None \<Rightarrow> (Panicked NilDereference, w)
      | Some v \<Rightarrow>
          if op_Status v = ''DONE'' then (Returned err, w)
          else
            (case ZoneOperations_Get (projectId cloud) zone (op_Name v) (time_Sleep 5 w) of
               (Returned (op', err'), w') \<Rightarrow>
                 (case op' of
                    None \<Rightarrow> (Panicked NilDereference, w')
                  | Some v' \<Rightarrow>
                      if op_Status v' \<noteq> ''PENDING'' \<and> op_Status v' \<noteq> ''RUNNING'' \<and> op_Status v' \<noteq> ''DONE''
                      then (Returned (Some (BadOperation v')), w')
                      else waitLoop cloud zone op' err' w')
             | (Panicked p, w') \<Rightarrow> (Panicked p, w')
             | (Blocked, w') \<Rightarrow> (Blocked, w')
             | (Exited n, w') \<Rightarrow> (Exited n, w')))"
  by pat_completeness auto
termination
  by (relation "measure (\<lambda>(cloud, zone, op, err, w). length (zoneops_get w))")
     (auto simp: ZoneOperations_Get_def time_Sleep_def emit_def split: list.splits)

declare waitLoop.simps [simp del]

definition waitForOp :: "GCECloud \<Rightarrow> Operation option \<Rightarrow> string \<Rightarrow> world \<Rightarrow> error option outcome \<times> world" where
  "waitForOp cloud op zone w =
     (case op of
        None \<Rightarrow> (Panicked NilDereference, w)
      | Some v \<Rightarrow>
          (case ZoneOperations_Get (projectId cloud) zone (op_Name v) w of
             (Returned (op', err), w') \<Rightarrow> waitLoop cloud zone op' err w'
           | (Panicked p, w') \<Rightarrow> (Panicked p, w')
           | (Blocked, w') \<Rightarrow> (Blocked, w')
           | (Exited n, w') \<Rightarrow> (Exited n, w')))"

subsection \<open>The address resolver\<close>

text \<open>
  \<^verbatim>\<open>instance.NetworkInterfaces[0].AccessConfigs[0].NatIP\<close>: each pointer is
  dereferenced and each slice is indexed at 0; Go panics on a nil pointer and on an
  index out of range.
\<close>

definition first_NatIP :: "Instance option \<Rightarrow> panic + string" where
  "first_NatIP inst =
     (case inst of
        None \<Rightarrow> Inl NilDereference
      | Some i \<Rightarrow>
          (case inst_NetworkInterfaces i of
             [] \<Rightarrow> Inl IndexOutOfRange
           | ni # _ \<Rightarrow>
               (case ni of
                  None \<Rightarrow> Inl NilDereference
                | Some n \<Rightarrow>
                    (case ni_AccessConfigs n of
                       [] \<Rightarrow> Inl IndexOutOfRange
                     | ac # _ \<Rightarrow>
                         (case ac of
                            None \<Rightarrow> Inl NilDereference
                          | Some a \<Rightarrow> Inr (ac_NatIP a))))))"

definition GetPublicIPAddress :: "GCECloud \<Rightarrow> string \<Rightarrow> string \<Rightarrow> world \<Rightarrow> (string \<times> error option) outcome \<times> world" where
  "GetPublicIPAddress cloud name zone w =
     andThen (Instances_Get (projectId cloud) zone name w) (\<lambda>(inst, err) w1.
       if err \<noteq> None then (Returned ('''', err), w1)
       else
         (case first_NatIP inst of
            Inl p \<Rightarrow> (Panicked p, w1)
          | Inr ip \<Rightarrow> (Returned (ip, None), w1)))"

subsection \<open>The disk manager\<close>

text \<open>
  The parameter \<^verbatim>\<open>name\<close> of \<^verbatim>\<open>getOrCreateRootDisk\<close> only appears in log messages;
  both provider calls use the flag \<^verbatim>\<open>*diskName\<close>. The reference returned after a
  creation is the \<^verbatim>\<open>TargetLink\<close> of the operation that the insert call returned.
\<close>

definition getOrCreateRootDisk :: "gce_flags \<Rightarrow> GCECloud \<Rightarrow> string \<Rightarrow> string \<Rightarrow> world \<Rightarrow> (string \<times> error option) outcome \<times> world" where
  "getOrCreateRootDisk fl cloud name zone w =
     andThen (Disks_Get (projectId cloud) zone (diskName fl) w) (\<lambda>(d, err) w1.
       if err = None then
         (case d of
            None \<Rightarrow> (Panicked NilDereference, w1)
          | Some found \<Rightarrow> (Returned (disk_SelfLink found, None), w1))
       else
         andThen (Disks_Insert (projectId cloud) zone
                    \<lparr>disk_Name = diskName fl, disk_SelfLink = ''''\<rparr> (image_flag fl) w1) (\<lambda>(op, err) w2.
           if err \<noteq> None then (Returned ('''', err), w2)
           else
             andThen (waitForOp cloud op zone w2) (\<lambda>err w3.
               if err \<noteq> None then (Returned ('''', err), w3)
               else
                 (case op of
                    None \<Rightarrow> (Panicked NilDereference, w3)
                  | Some v \<Rightarrow> (Returned (op_TargetLink v, None), w3)))))"

subsection \<open>The instance manager\<close>

text \<open>
  The request that \<^verbatim>\<open>CreateInstance\<close> builds. A field that a Go composite literal
  does not set has its zero value: \<^verbatim>\<open>NatIP\<close> of the access configuration is the empty
  string. The insert call reads the request and does not change it.
\<close>

definition new_instance :: "gce_flags \<Rightarrow> GCECloud \<Rightarrow> string \<Rightarrow> string \<Rightarrow> Instance" where
  "new_instance fl cloud name rootDisk =
     (let prefix = ''https://www.googleapis.com/compute/v1/projects/'' @ projectId cloud in
      \<lparr>inst_Name = name,
       inst_Description = ''Docker on GCE'',
       inst_MachineType = prefix @ instanceType fl,
       inst_Disks =
         [Some \<lparr>ad_Boot = True, ad_Type = ''PERSISTENT'', ad_Mode = ''READ_WRITE'',
                ad_Source = rootDisk\<rparr>],
       inst_NetworkInterfaces =
         [Some \<lparr>ni_AccessConfigs = [Some \<lparr>ac_Type = ''ONE_TO_ONE_NAT'', ac_NatIP = ''''\<rparr>],
                ni_Network = prefix @ ''/global/networks/default''\<rparr>],
       inst_Metadata =
         Some \<lparr>md_Items = [Some \<lparr>mi_Key = ''startup-script'', mi_Value = startup\<rparr>]\<rparr>\<rparr>)"

definition CreateInstance :: "gce_flags \<Rightarrow> GCECloud \<Rightarrow> string \<Rightarrow> string \<Rightarrow> world \<Rightarrow> (string \<times> error option) outcome \<times> world" where
  "CreateInstance fl cloud name zone w =
     andThen (getOrCreateRootDisk fl cloud (diskName fl) zone w) (\<lambda>(rootDisk, err) w1.
       if err \<noteq> None then (Returned ('''', err), w1)
       else
         (let inst = new_instance fl cloud name rootDisk in
          andThen (Instances_Insert (projectId cloud) zone inst w1) (\<lambda>(op, err) w2.
            if err \<noteq> None then (Returned ('''', err), w2)
            else
              andThen (waitForOp cloud op zone w2) (\<lambda>err w3.
                if err \<noteq> None then (Returned ('''', err), w3)
                else
                  (case first_NatIP (Some inst) of
                     Inl p \<Rightarrow> (Panicked p, time_Sleep 60 w3)
                   | Inr ip \<Rightarrow> (Returned (ip, err), time_Sleep 60 w3))))))"

definition DeleteInstance :: "GCECloud \<Rightarrow> string \<Rightarrow> string \<Rightarrow> world \<Rightarrow> error option outcome \<times> world" where
  "DeleteInstance cloud name zone w =
     andThen (Instances_Delete (projectId cloud) zone name w) (\<lambda>(op, err) w1.
       if err \<noteq> None then (Returned err, w1)
       else waitForOp cloud op zone w1)"

subsection \<open>The tunnel launcher\<close>

text \<open>\<^verbatim>\<open>%d\<close> of \<^verbatim>\<open>fmt.Sprintf\<close>: the decimal digits, with a minus sign below zero.\<close>

fun digits :: "nat \<Rightarrow> string" where
  "digits n =
     (if n < 10 then [''0123456789'' ! n]
      else digits (n div 10) @ [''0123456789'' ! (n mod 10)])"

declare digits.simps [simp del]

definition itoa :: "int \<Rightarrow> string" where
  "itoa i = (if i < 0 then CHR ''-'' # digits (nat (- i)) else digits (nat i))"

text \<open>
  \<^verbatim>\<open>strings.Split(s, sep)\<close> for a separator of one character, which is how the
  program calls it (\<^verbatim>\<open>" "\<close>): the pieces between the separators, empty pieces kept.
\<close>

fun strings_Split :: "string \<Rightarrow> char \<Rightarrow> string list" where
  "strings_Split [] sep = [[]]"
| "strings_Split (c # cs) sep =
     (if c = sep then [] # strings_Split cs sep
      else (case strings_Split cs sep of
              [] \<Rightarrow> [[c]]
            | piece # pieces \<Rightarrow> (c # piece) # pieces))"

definition sshCommand :: "string \<Rightarrow> string \<Rightarrow> string \<Rightarrow> int \<Rightarrow> string \<Rightarrow> int \<Rightarrow> string" where
  "sshCommand homedir username ip localPort hostname remotePort =
     ''-o LogLevel=quiet -o UserKnownHostsFile=/dev/null -o CheckHostIP=no -o StrictHostKeyChecking=no -i ''
     @ homedir @ ''/.ssh/google_compute_engine -A -p 22 '' @ username @ ''@'' @ ip
     @ '' -f -N -L '' @ itoa localPort @ '':'' @ hostname @ '':'' @ itoa remotePort"

text \<open>The result of \<^verbatim>\<open>cmd.Run()\<close> is dropped; \<^verbatim>\<open>cmd.Process\<close> is returned with a nil error.\<close>

definition openSecureTunnel :: "GCECloud \<Rightarrow> string \<Rightarrow> string \<Rightarrow> string \<Rightarrow> int \<Rightarrow> int \<Rightarrow> world \<Rightarrow> (nat option \<times> error option) outcome \<times> world" where
  "openSecureTunnel cloud name zone hostname localPort remotePort w =
     andThen (GetPublicIPAddress cloud name zone w) (\<lambda>(ip, err) w1.
       if err \<noteq> None then (Returned (None, err), w1)
       else
         (let username = environ w1 ''USER'';
              homedir = environ w1 ''HOME'';
              args = strings_Split (sshCommand homedir username ip localPort hostname remotePort) CHR '' ''
          in andThen (cmd_Run ''ssh'' args w1) (\<lambda>r w2. (Returned (run_Process r, None), w2))))"

definition OpenSecureTunnel :: "GCECloud \<Rightarrow> string \<Rightarrow> string \<Rightarrow> int \<Rightarrow> int \<Rightarrow> world \<Rightarrow> (nat option \<times> error option) outcome \<times> world" where
  "OpenSecureTunnel cloud name zone localPort remotePort w =
     openSecureTunnel cloud name zone ''localhost'' localPort remotePort w"

subsection \<open>The orchestrator\<close>

definition GetOrCreateInstance :: "gce_flags \<Rightarrow> main_flags \<Rightarrow> GCECloud \<Rightarrow> world \<Rightarrow> (string \<times> error option) outcome \<times> world" where
  "GetOrCreateInstance fl mf cloud w =
     andThen (GetPublicIPAddress cloud (instanceName mf) (zone_flag mf) w) (\<lambda>(ip, err) w1.
       let instanceRunning = (length ip > 0) in
       if instanceRunning then (Returned (ip, err), w1)
       else CreateInstance fl cloud (instanceName mf) (zone_flag mf) w1)"

text \<open>
  The two cases of the \<^verbatim>\<open>switch\<close> in \<^verbatim>\<open>main\<close>. After the tunnel is open, \<^verbatim>\<open>start\<close>
  receives from a nil channel, which never returns. The cloud value, which \<^verbatim>\<open>main\<close>
  builds from the operator's credentials and the project flag, is taken as given.
\<close>

definition start :: "gce_flags \<Rightarrow> main_flags \<Rightarrow> GCECloud \<Rightarrow> world \<Rightarrow> unit outcome \<times> world" where
  "start fl mf cloud w =
     andThen (GetOrCreateInstance fl mf cloud w) (\<lambda>(ip, err) w1.
       if err \<noteq> None then (Exited 1, w1)
       else
         andThen (OpenSecureTunnel cloud (instanceName mf) (zone_flag mf) (tunnelPort mf) (dockerPort mf) w1)
           (\<lambda>(process, err) w2.
              if err \<noteq> None then (Exited 1, w2)
              else (Blocked, w2)))"

definition stop :: "main_flags \<Rightarrow> GCECloud \<Rightarrow> world \<Rightarrow> unit outcome \<times> world" where
  "stop mf cloud w =
     andThen (DeleteInstance cloud (instanceName mf) (zone_flag mf) w) (\<lambda>err w1.
       if err \<noteq> None then (Exited 1, w1)
       else (Returned (), w1))"

definition main :: "gce_flags \<Rightarrow> main_flags \<Rightarrow> GCECloud \<Rightarrow> string list \<Rightarrow> world \<Rightarrow> unit outcome \<times> world" where
  "main fl mf cloud args w =
     (case args of
        [] \<Rightarrow> (Exited (- 1), w)
      | verb # _ \<Rightarrow>
          if verb = ''start'' then start fl mf cloud w
          else if verb = ''stop'' then stop mf cloud w
          else (Returned (), w))"

subsection \<open>Concrete worlds\<close>

text \<open>
  A world in which the provider answers nothing yet; examples set the answers they
  need. The operator's environment has \<^verbatim>\<open>USER\<close> and \<^verbatim>\<open>HOME\<close> set.
\<close>

definition quiet_world :: world where
  "quiet_world =
     \<lparr>instances_get = [], instances_insert = [], instances_delete = [], disks_get = [],
      disks_insert = [], zoneops_get = [], exec_run = [],
      environ = (\<lambda>k. if k = ''USER'' then ''operator''
                     else if k = ''HOME'' then ''/home/operator'' else ''''),
      trace = []\<rparr>"

definition example_cloud :: GCECloud where
  "example_cloud = \<lparr>projectId = ''my-project''\<rparr>"

definition op_with_status :: "string \<Rightarrow> Operation" where
  "op_with_status s =
     \<lparr>op_Name = ''operation-1'', op_Status = s,
      op_TargetLink = ''zones/us-central1-a/disks/docker-root''\<rparr>"

definition instance_with_address :: "string \<Rightarrow> Instance" where
  "instance_with_address ip =
     \<lparr>inst_Name = ''docker-instance'', inst_Description = ''Docker on GCE'',
      inst_MachineType = ''n1-standard-1'', inst_Disks = [],
      inst_NetworkInterfaces =
        [Some \<lparr>ni_AccessConfigs = [Some \<lparr>ac_Type = ''ONE_TO_ONE_NAT'', ac_NatIP = ip\<rparr>],
               ni_Network = ''default''\<rparr>],
      inst_Metadata = None\<rparr>"

definition instance_without_interface :: Instance where
  "instance_without_interface =
     (instance_with_address '''')\<lparr>inst_NetworkInterfaces := []\<rparr>"

definition existing_disk :: Disk where
  "existing_disk =
     \<lparr>disk_Name = ''docker-root'', disk_SelfLink = ''zones/us-central1-a/disks/docker-root''\<rparr>"

text \<open>The disk exists, the instance insert is accepted and its operation is done at the first poll.\<close>

definition created_world :: world where
  "created_world =
     quiet_world\<lparr>disks_get := [(Some existing_disk, None)],
                 instances_insert := [(Some (op_with_status ''PENDING''), None)],
                 zoneops_get := [(Some (op_with_status ''DONE''), None)]\<rparr>"

definition ssh_started :: run_result where
  "ssh_started = \<lparr>run_Process = Some 4242, run_error = None\<rparr>"

definition ssh_failed :: run_result where
  "ssh_failed = \<lparr>run_Process = None, run_error = Some (ApiError ''exec: ssh: executable file not found'')\<rparr>"

text \<open>
  The arguments of \<^verbatim>\<open>ssh\<close> for the default ports, the operator above and a given
  address.
\<close>

definition example_ssh_args :: "string \<Rightarrow> string list" where
  "example_ssh_args ip =
     [''-o'', ''LogLevel=quiet'', ''-o'', ''UserKnownHostsFile=/dev/null'', ''-o'',
      ''CheckHostIP=no'', ''-o'', ''StrictHostKeyChecking=no'', ''-i'',
      ''/home/operator/.ssh/google_compute_engine'', ''-A'', ''-p'', ''22'',
      ''operator@'' @ ip, ''-f'', ''-N'', ''-L'', ''8001:localhost:8000'']"

text \<open>
  The world right after a failed disk lookup and the disk insert call that follows it:
  both answers are consumed and both calls are in the trace.
\<close>

abbreviation disk_insert_issued :: "gce_flags \<Rightarrow> GCECloud \<Rightarrow> string \<Rightarrow> Disk reply list \<Rightarrow> Operation reply list \<Rightarrow> world \<Rightarrow> world" where
  "disk_insert_issued fl cloud zone ds os w \<equiv>
     w\<lparr>disks_get := ds, disks_insert := os,
       trace := trace w @
         [DisksGet (projectId cloud) zone (diskName fl),
          DisksInsert (projectId cloud) zone \<lparr>disk_Name = diskName fl, disk_SelfLink = ''''\<rparr>
            (image_flag fl)]\<rparr>"

section \<open>Properties\<close>

subsection \<open>Sequencing and the poller, step by step\<close>

lemma andThen_simps:
  "andThen (Returned a, w) k = k a w"
  "andThen (Panicked p, w) k = (Panicked p, w)"
  "andThen (Blocked, w) k = (Blocked, w)"
  "andThen (Exited n, w) k = (Exited n, w)"
  by (simp_all add: andThen_def)

lemma waitLoop_nil: "waitLoop cloud zone None err w = (Panicked NilDereference, w)"
  by (simp add: waitLoop.simps)

lemma waitLoop_done:
  "op_Status v = ''DONE'' \<Longrightarrow> waitLoop cloud zone (Some v) err w = (Returned err, w)"
  by (simp add: waitLoop.simps)

lemma waitLoop_blocked:
  "op_Status v \<noteq> ''DONE'' \<Longrightarrow> zoneops_get w = [] \<Longrightarrow>
   waitLoop cloud zone (Some v) err w =
     (Blocked, w\<lparr>trace := trace w @ [Sleep 5, ZoneOperationsGet (projectId cloud) zone (op_Name v)]\<rparr>)"
  by (simp add: waitLoop.simps [of _ _ "Some v"] ZoneOperations_Get_def time_Sleep_def emit_def)

lemma waitLoop_step:
  "op_Status v \<noteq> ''DONE'' \<Longrightarrow> zoneops_get w = (op', err') # rs \<Longrightarrow>
   waitLoop cloud zone (Some v) err w =
     (let w' = w\<lparr>zoneops_get := rs,
                  trace := trace w @ [Sleep 5, ZoneOperationsGet (projectId cloud) zone (op_Name v)]\<rparr>
      in case op' of
           None \<Rightarrow> (Panicked NilDereference, w')
         | Some v' \<Rightarrow>
             if op_Status v' \<noteq> ''PENDING'' \<and> op_Status v' \<noteq> ''RUNNING'' \<and> op_Status v' \<noteq> ''DONE''
             then (Returned (Some (BadOperation v')), w')
             else waitLoop cloud zone op' err' w')"
  by (simp add: waitLoop.simps [of _ _ "Some v"] ZoneOperations_Get_def time_Sleep_def emit_def
           split: option.splits)

lemma waitForOp_first:
  "zoneops_get w = (op', err') # rs \<Longrightarrow>
   waitForOp cloud (Some v) zone w =
     waitLoop cloud zone op' err'
       (w\<lparr>zoneops_get := rs, trace := trace w @ [ZoneOperationsGet (projectId cloud) zone (op_Name v)]\<rparr>)"
  by (simp add: waitForOp_def ZoneOperations_Get_def emit_def)

text \<open>
  Inside the loop an unrecognised status ends the wait at once: the error is returned
  right after the fetch that showed it.
\<close>

lemma waitLoop_refetched_bad_status:
  assumes "op_Status v \<noteq> ''DONE''" and "zoneops_get w = (Some v', err') # rs"
    and "op_Status v' \<noteq> ''PENDING''" and "op_Status v' \<noteq> ''RUNNING''" and "op_Status v' \<noteq> ''DONE''"
  shows "waitLoop cloud zone (Some v) err w =
           (Returned (Some (BadOperation v')),
            w\<lparr>zoneops_get := rs,
              trace := trace w @ [Sleep 5, ZoneOperationsGet (projectId cloud) zone (op_Name v)]\<rparr>)"
  using assms by (simp add: waitLoop_step)

text \<open>
  A fetch error that comes with an operation still pending or running does not end the
  wait: the loop goes on with that operation, and the next fetch replaces the error.
\<close>

lemma waitLoop_error_with_operation:
  assumes "op_Status v \<noteq> ''DONE''" and "zoneops_get w = (Some v', Some e) # rs"
    and "op_Status v' = ''PENDING'' \<or> op_Status v' = ''RUNNING''"
  shows "waitLoop cloud zone (Some v) err w =
           waitLoop cloud zone (Some v') (Some e)
             (w\<lparr>zoneops_get := rs,
                trace := trace w @ [Sleep 5, ZoneOperationsGet (projectId cloud) zone (op_Name v)]\<rparr>)"
  using assms by (auto simp: waitLoop_step)

subsection \<open>What each part leaves in the trace\<close>

text \<open>
  Polling only sleeps and fetches: events of any other kind are neither added nor removed.
\<close>

lemma waitLoop_frame:
  assumes "\<And>n. \<not> P (Sleep n)" and "\<And>p z n. \<not> P (ZoneOperationsGet p z n)"
  shows "filter P (trace (snd (waitLoop cloud zone op err w))) = filter P (trace w)"
proof (induction cloud zone op err w rule: waitLoop.induct)
  case (1 cloud zone op err w)
  show ?case
  proof (cases op)
    case None
    then show ?thesis by (simp add: waitLoop_nil)
  next
    case (Some v)
    show ?thesis
    proof (cases "op_Status v = ''DONE''")
      case True
      with Some show ?thesis by (simp add: waitLoop_done)
    next
      case False
      show ?thesis
      proof (cases "zoneops_get w")
        case Nil
        with Some False show ?thesis by (simp add: waitLoop_blocked assms)
      next
        case (Cons r rs)
        obtain op' err' where r: "r = (op', err')" by (cases r)
        let ?w' = "emit (ZoneOperationsGet (projectId cloud) zone (op_Name v)) (time_Sleep 5 w\<lparr>zoneops_get := rs\<rparr>)"
        have call: "ZoneOperations_Get (projectId cloud) zone (op_Name v) (time_Sleep 5 w) = (Returned (op', err'), ?w')"
          using Cons r by (simp add: ZoneOperations_Get_def time_Sleep_def emit_def)
        have tr: "filter P (trace ?w') = filter P (trace w)"
          by (simp add: time_Sleep_def emit_def assms)
        show ?thesis
        proof (cases op')
          case None
          with Some False call tr show ?thesis
            by (simp add: waitLoop.simps [of _ _ "Some v"])
        next
          case (Some v')
          from "1.IH" [OF \<open>op = Some v\<close> False call [symmetric] refl refl Some]
          show ?thesis using \<open>op = Some v\<close> False call tr Some
            by (simp add: waitLoop.simps [of _ _ "Some v"])
        qed
      qed
    qed
  qed
qed

lemma waitForOp_frame:
  assumes "\<And>n. \<not> P (Sleep n)" and "\<And>p z n. \<not> P (ZoneOperationsGet p z n)"
  shows "filter P (trace (snd (waitForOp cloud op zone w))) = filter P (trace w)"
proof (cases op)
  case None
  then show ?thesis by (simp add: waitForOp_def)
next
  case (Some v)
  show ?thesis
  proof (cases "zoneops_get w")
    case Nil
    with Some show ?thesis
      by (simp add: waitForOp_def ZoneOperations_Get_def emit_def assms)
  next
    case (Cons r rs)
    obtain op' err' where "r = (op', err')" by (cases r)
    with Some Cons show ?thesis
      by (simp add: waitForOp_first waitLoop_frame [OF assms] assms)
  qed
qed

lemma GetPublicIPAddress_answered:
  "instances_get w = (inst, err) # rest \<Longrightarrow>
   GetPublicIPAddress cloud name zone w =
     (let w1 = w\<lparr>instances_get := rest, trace := trace w @ [InstancesGet (projectId cloud) zone name]\<rparr>
      in if err \<noteq> None then (Returned ('''', err), w1)
         else (case first_NatIP inst of
                 Inl p \<Rightarrow> (Panicked p, w1)
               | Inr ip \<Rightarrow> (Returned (ip, None), w1)))"
  by (simp add: GetPublicIPAddress_def Instances_Get_def emit_def andThen_simps Let_def)

lemma GetPublicIPAddress_trace:
  "trace (snd (GetPublicIPAddress cloud name zone w)) = trace w @ [InstancesGet (projectId cloud) zone name]"
  by (cases "instances_get w")
     (auto simp: GetPublicIPAddress_def Instances_Get_def emit_def andThen_simps
           split: sum.splits)

lemma GetPublicIPAddress_error_empty:
  "GetPublicIPAddress cloud name zone w = (Returned (ip, Some e), w1) \<Longrightarrow> ip = ''''"
  by (cases "instances_get w")
     (auto simp: GetPublicIPAddress_def Instances_Get_def andThen_simps
           split: if_splits sum.splits)

lemma getOrCreateRootDisk_frame:
  assumes "\<And>n. \<not> P (Sleep n)" and "\<And>p z n. \<not> P (ZoneOperationsGet p z n)"
    and "\<And>p z n. \<not> P (DisksGet p z n)" and "\<And>p z d s. \<not> P (DisksInsert p z d s)"
  shows "filter P (trace (snd (getOrCreateRootDisk fl cloud name zone w))) = filter P (trace w)"
proof (cases "disks_get w")
  case Nil
  then show ?thesis
    by (simp add: getOrCreateRootDisk_def Disks_Get_def emit_def andThen_simps assms)
next
  case (Cons r ds)
  obtain d err where r: "r = (d, err)" by (cases r)
  show ?thesis
  proof (cases err)
    case None
    with Cons r show ?thesis
      by (simp add: getOrCreateRootDisk_def Disks_Get_def emit_def andThen_simps assms
               split: option.splits)
  next
    case (Some e)
    show ?thesis
    proof (cases "disks_insert w")
      case Nil
      with Cons r Some show ?thesis
        by (simp add: getOrCreateRootDisk_def Disks_Get_def Disks_Insert_def emit_def
                      andThen_simps assms)
    next
      case ins: (Cons r' os)
      obtain op err' where r': "r' = (op, err')" by (cases r')
      let ?w2 = "w\<lparr>disks_get := ds, disks_insert := os,
                    trace := trace w @ [DisksGet (projectId cloud) zone (diskName fl),
                      DisksInsert (projectId cloud) zone \<lparr>disk_Name = diskName fl, disk_SelfLink = ''''\<rparr> (image_flag fl)]\<rparr>"
      obtain res w3 where wait: "waitForOp cloud op zone ?w2 = (res, w3)"
        by (cases "waitForOp cloud op zone ?w2")
      have "filter P (trace w3) = filter P (trace ?w2)"
        using waitForOp_frame [of P cloud op zone ?w2, OF assms(1,2)] wait by simp
      then have w3: "filter P (trace w3) = filter P (trace w)"
        by (simp add: assms)
      from Cons r Some ins r' wait w3 show ?thesis
        by (cases res)
           (auto simp: getOrCreateRootDisk_def Disks_Get_def Disks_Insert_def emit_def
                       andThen_simps assms split: option.splits)
    qed
  qed
qed

lemma getOrCreateRootDisk_one_insert:
  assumes "disks_get w = (d, Some e) # ds"
  shows "filter is_DisksInsert (trace (snd (getOrCreateRootDisk fl cloud name zone w))) =
           filter is_DisksInsert (trace w) @
             [DisksInsert (projectId cloud) zone \<lparr>disk_Name = diskName fl, disk_SelfLink = ''''\<rparr>
                (image_flag fl)]"
proof (cases "disks_insert w")
  case Nil
  with assms show ?thesis
    by (simp add: getOrCreateRootDisk_def Disks_Get_def Disks_Insert_def emit_def andThen_simps)
next
  case (Cons r os)
  obtain op err where r: "r = (op, err)" by (cases r)
  let ?w2 = "disk_insert_issued fl cloud zone ds os w"
  obtain res w3 where wait: "waitForOp cloud op zone ?w2 = (res, w3)"
    by (cases "waitForOp cloud op zone ?w2")
  have "filter is_DisksInsert (trace w3) = filter is_DisksInsert (trace ?w2)"
    using waitForOp_frame [of is_DisksInsert cloud op zone ?w2] wait by simp
  with assms Cons r wait show ?thesis
    by (cases res)
       (auto simp: getOrCreateRootDisk_def Disks_Get_def Disks_Insert_def emit_def
                   andThen_simps split: option.splits)
qed

lemma OpenSecureTunnel_frame:
  assumes "\<And>p z n. \<not> P (InstancesGet p z n)" and "\<And>c args. \<not> P (ExecRun c args)"
  shows "filter P (trace (snd (OpenSecureTunnel cloud name zone localPort remotePort w))) =
         filter P (trace w)"
proof -
  obtain res w1 where g: "GetPublicIPAddress cloud name zone w = (res, w1)"
    by (cases "GetPublicIPAddress cloud name zone w")
  with GetPublicIPAddress_trace [of cloud name zone w]
  have w1: "filter P (trace w1) = filter P (trace w)"
    by (simp add: assms)
  show ?thesis
  proof (cases res)
    case (Returned a)
    obtain ip err where "a = (ip, err)" by (cases a)
    with g Returned w1 show ?thesis
      by (cases "exec_run w1")
         (simp_all add: OpenSecureTunnel_def openSecureTunnel_def andThen_simps cmd_Run_def
                        emit_def Let_def assms)
  qed (use g w1 in \<open>simp_all add: OpenSecureTunnel_def openSecureTunnel_def andThen_simps\<close>)
qed

lemma example_args:
  "strings_Split (sshCommand ''/home/operator'' ''operator'' ''203.0.113.7'' 8001 ''localhost'' 8000) CHR '' ''
     = example_ssh_args ''203.0.113.7''"
  "strings_Split (sshCommand ''/home/operator'' ''operator'' ''198.51.100.9'' 8001 ''localhost'' 8000) CHR '' ''
     = example_ssh_args ''198.51.100.9''"
  by (simp_all add: sshCommand_def itoa_def digits.simps example_ssh_args_def)

subsection \<open>The operation poller\<close>

text \<open>
  Claim C5. For an operation whose successive polled statuses are PENDING, then RUNNING,
  then DONE, \<^verbatim>\<open>waitForOp\<close> performs exactly three status fetches (with a sleep of five
  seconds before the second and before the third) and then returns nil.
\<close>

theorem waitForOp_pending_running_done:
  assumes "zoneops_get w = (Some v1, None) # (Some v2, None) # (Some v3, None) # rest"
    and "op_Status v1 = ''PENDING''" and "op_Status v2 = ''RUNNING''" and "op_Status v3 = ''DONE''"
  shows "waitForOp cloud (Some op) zone w =
           (Returned None,
            w\<lparr>zoneops_get := rest,
              trace := trace w @
                [ZoneOperationsGet (projectId cloud) zone (op_Name op), Sleep 5,
                 ZoneOperationsGet (projectId cloud) zone (op_Name v1), Sleep 5,
                 ZoneOperationsGet (projectId cloud) zone (op_Name v2)]\<rparr>)"
  using assms by (simp add: waitForOp_first waitLoop_step waitLoop_done)

theorem waitForOp_pending_running_done_witness:
  "waitForOp example_cloud (Some (op_with_status ''PENDING'')) ''us-central1-a''
     (quiet_world\<lparr>zoneops_get :=
        [(Some (op_with_status ''PENDING''), None), (Some (op_with_status ''RUNNING''), None),
         (Some (op_with_status ''DONE''), None)]\<rparr>) =
   (Returned None,
    quiet_world\<lparr>trace :=
      [ZoneOperationsGet ''my-project'' ''us-central1-a'' ''operation-1'', Sleep 5,
       ZoneOperationsGet ''my-project'' ''us-central1-a'' ''operation-1'', Sleep 5,
       ZoneOperationsGet ''my-project'' ''us-central1-a'' ''operation-1'']\<rparr>)"
  using waitForOp_pending_running_done [of
      "quiet_world\<lparr>zoneops_get :=
        [(Some (op_with_status ''PENDING''), None), (Some (op_with_status ''RUNNING''), None),
         (Some (op_with_status ''DONE''), None)]\<rparr>"
      "op_with_status ''PENDING''" "op_with_status ''RUNNING''" "op_with_status ''DONE''" "[]"
      example_cloud "op_with_status ''PENDING''" "''us-central1-a''"]
  by (simp add: op_with_status_def example_cloud_def quiet_world_def)

text \<open>
  Claim C1. A status outside PENDING, RUNNING and DONE should end the wait with an error
  at once, also on the very first fetch. The status check stands after the re-fetch
  inside the loop, so the status of the first fetch is only compared with DONE: when the
  first fetch reports FAILED, the wait sleeps and fetches again. If the second fetch
  reports DONE the wait returns nil; if it reports FAILED again, the error comes only
  then.
\<close>

theorem waitForOp_first_status_unchecked:
  "waitForOp example_cloud (Some (op_with_status ''PENDING'')) ''us-central1-a''
     (quiet_world\<lparr>zoneops_get :=
        [(Some (op_with_status ''FAILED''), None), (Some (op_with_status ''DONE''), None)]\<rparr>) =
   (Returned None,
    quiet_world\<lparr>trace :=
      [ZoneOperationsGet ''my-project'' ''us-central1-a'' ''operation-1'', Sleep 5,
       ZoneOperationsGet ''my-project'' ''us-central1-a'' ''operation-1'']\<rparr>)
   \<and> waitForOp example_cloud (Some (op_with_status ''PENDING'')) ''us-central1-a''
     (quiet_world\<lparr>zoneops_get :=
        [(Some (op_with_status ''FAILED''), None), (Some (op_with_status ''FAILED''), None)]\<rparr>) =
   (Returned (Some (BadOperation (op_with_status ''FAILED''))),
    quiet_world\<lparr>trace :=
      [ZoneOperationsGet ''my-project'' ''us-central1-a'' ''operation-1'', Sleep 5,
       ZoneOperationsGet ''my-project'' ''us-central1-a'' ''operation-1'']\<rparr>)"
  by (simp add: waitForOp_first waitLoop_step waitLoop_done op_with_status_def
                example_cloud_def quiet_world_def)

text \<open>
  Claim C2. A fetch error during polling should only be logged, and never end the wait.
  The provider's client returns a nil operation together with an error; the loop logs the
  error and then reads \<^verbatim>\<open>op.Status\<close> through that nil pointer, which panics.
\<close>

theorem waitForOp_fetch_error_panics:
  "waitForOp example_cloud (Some (op_with_status ''PENDING'')) ''us-central1-a''
     (quiet_world\<lparr>zoneops_get :=
        [(Some (op_with_status ''PENDING''), None), (None, Some (ApiError ''connection reset''))]\<rparr>) =
   (Panicked NilDereference,
    quiet_world\<lparr>trace :=
      [ZoneOperationsGet ''my-project'' ''us-central1-a'' ''operation-1'', Sleep 5,
       ZoneOperationsGet ''my-project'' ''us-central1-a'' ''operation-1'']\<rparr>)"
  by (simp add: waitForOp_first waitLoop_step waitLoop_done op_with_status_def
                example_cloud_def quiet_world_def)

subsection \<open>The address resolver\<close>

text \<open>
  Claim C7 says that \<^verbatim>\<open>GetPublicIPAddress\<close> returns an error rather than crashing
  when the instance has no network interface or no access configuration. It does not:
  for an instance without a network interface the index expression panics.
\<close>

theorem GetPublicIPAddress_panics_without_interface:
  "fst (GetPublicIPAddress example_cloud ''docker-instance'' ''us-central1-a''
     (quiet_world\<lparr>instances_get := [(Some instance_without_interface, None)]\<rparr>)) =
     Panicked IndexOutOfRange"
  by (simp add: GetPublicIPAddress_answered first_NatIP_def Let_def quiet_world_def
                instance_with_address_def instance_without_interface_def)

text \<open>
  Claim C7, amended. \<^verbatim>\<open>GetPublicIPAddress\<close> returns the lookup error, with an empty
  address, whenever the instance lookup fails. When the lookup succeeds and the instance
  has a first network interface with a first access configuration, it returns that
  configuration's external address with a nil error. When the instance has no network
  interface, or its first interface has no access configuration, the call panics with an
  index out of range.
\<close>

theorem GetPublicIPAddress_error_address_or_panic:
  "(instances_get w = (inst, Some e) # rest \<longrightarrow>
      GetPublicIPAddress cloud name zone w =
        (Returned ('''', Some e),
         w\<lparr>instances_get := rest, trace := trace w @ [InstancesGet (projectId cloud) zone name]\<rparr>))
   \<and> (instances_get w = (Some i, None) # rest \<and> inst_NetworkInterfaces i = Some n # nis
        \<and> ni_AccessConfigs n = Some a # acs \<longrightarrow>
      GetPublicIPAddress cloud name zone w =
        (Returned (ac_NatIP a, None),
         w\<lparr>instances_get := rest, trace := trace w @ [InstancesGet (projectId cloud) zone name]\<rparr>))
   \<and> (instances_get w = (Some i, None) # rest
        \<and> (inst_NetworkInterfaces i = []
             \<or> inst_NetworkInterfaces i = Some n # nis \<and> ni_AccessConfigs n = []) \<longrightarrow>
      GetPublicIPAddress cloud name zone w =
        (Panicked IndexOutOfRange,
         w\<lparr>instances_get := rest, trace := trace w @ [InstancesGet (projectId cloud) zone name]\<rparr>))"
  by (auto simp: GetPublicIPAddress_answered first_NatIP_def Let_def)

theorem GetPublicIPAddress_error_address_or_panic_witness:
  "GetPublicIPAddress example_cloud ''docker-instance'' ''us-central1-a''
     (quiet_world\<lparr>instances_get := [(None, Some (ApiError ''notFound''))]\<rparr>) =
     (Returned ('''', Some (ApiError ''notFound'')),
      quiet_world\<lparr>trace := [InstancesGet ''my-project'' ''us-central1-a'' ''docker-instance'']\<rparr>)
   \<and> GetPublicIPAddress example_cloud ''docker-instance'' ''us-central1-a''
     (quiet_world\<lparr>instances_get := [(Some (instance_with_address ''203.0.113.7''), None)]\<rparr>) =
     (Returned (''203.0.113.7'', None),
      quiet_world\<lparr>trace := [InstancesGet ''my-project'' ''us-central1-a'' ''docker-instance'']\<rparr>)
   \<and> GetPublicIPAddress example_cloud ''docker-instance'' ''us-central1-a''
     (quiet_world\<lparr>instances_get := [(Some instance_without_interface, None)]\<rparr>) =
     (Panicked IndexOutOfRange,
      quiet_world\<lparr>trace := [InstancesGet ''my-project'' ''us-central1-a'' ''docker-instance'']\<rparr>)"
  using
    GetPublicIPAddress_error_address_or_panic [of
      "quiet_world\<lparr>instances_get := [(None, Some (ApiError ''notFound''))]\<rparr>"
      None "ApiError ''notFound''" "[]" example_cloud "''docker-instance''" "''us-central1-a''"]
    GetPublicIPAddress_error_address_or_panic [of
      "quiet_world\<lparr>instances_get := [(Some (instance_with_address ''203.0.113.7''), None)]\<rparr>"
      _ _ "[]" example_cloud "''docker-instance''" "''us-central1-a''"
      "instance_with_address ''203.0.113.7''"
      "\<lparr>ni_AccessConfigs = [Some \<lparr>ac_Type = ''ONE_TO_ONE_NAT'', ac_NatIP = ''203.0.113.7''\<rparr>], ni_Network = ''default''\<rparr>"
      "[]" "\<lparr>ac_Type = ''ONE_TO_ONE_NAT'', ac_NatIP = ''203.0.113.7''\<rparr>" "[]"]
    GetPublicIPAddress_error_address_or_panic [of
      "quiet_world\<lparr>instances_get := [(Some instance_without_interface, None)]\<rparr>"
      _ _ "[]" example_cloud "''docker-instance''" "''us-central1-a''"
      instance_without_interface]
  by (simp add: quiet_world_def example_cloud_def instance_with_address_def instance_without_interface_def)

subsection \<open>The disk manager\<close>

text \<open>
  Claim C3 says that after a failed lookup the insert is always followed by one operation
  wait and the return of the created disk's reference. When the insert call itself
  fails, its error is returned with an empty reference and nothing is polled.
\<close>

theorem getOrCreateRootDisk_insert_error_no_wait:
  "getOrCreateRootDisk default_gce_flags example_cloud ''docker-root'' ''us-central1-a''
     (quiet_world\<lparr>disks_get := [(None, Some (ApiError ''notFound''))],
                   disks_insert := [(None, Some (ApiError ''quotaExceeded''))]\<rparr>) =
     (Returned ('''', Some (ApiError ''quotaExceeded'')),
      quiet_world\<lparr>trace :=
        [DisksGet ''my-project'' ''us-central1-a'' ''docker-root'',
         DisksInsert ''my-project'' ''us-central1-a''
           \<lparr>disk_Name = ''docker-root'', disk_SelfLink = ''''\<rparr> (image_flag default_gce_flags)]\<rparr>)"
  by (simp add: getOrCreateRootDisk_def Disks_Get_def Disks_Insert_def emit_def andThen_simps
                quiet_world_def example_cloud_def default_gce_flags_def)

text \<open>
  Claim C3, amended. If the initial disk lookup succeeds, the found disk's reference is
  returned immediately and no create call is issued. If the lookup fails (any error),
  exactly one disk insert call is issued, never two. If that call returns an error, the
  error is returned with an empty reference and no wait takes place. If it returns an
  operation without error, one wait on that operation follows: when the wait returns nil
  the operation's target link, the reference of the created disk, is returned; when the
  wait returns an error, that error is returned with an empty reference.
\<close>

theorem getOrCreateRootDisk_lookup_then_one_insert:
  "(disks_get w = (Some found, None) # ds \<longrightarrow>
      getOrCreateRootDisk fl cloud name zone w =
        (Returned (disk_SelfLink found, None),
         w\<lparr>disks_get := ds, trace := trace w @ [DisksGet (projectId cloud) zone (diskName fl)]\<rparr>))
   \<and> (disks_get w = (d, Some e) # ds \<longrightarrow>
        filter is_DisksInsert (trace (snd (getOrCreateRootDisk fl cloud name zone w))) =
          filter is_DisksInsert (trace w) @
            [DisksInsert (projectId cloud) zone \<lparr>disk_Name = diskName fl, disk_SelfLink = ''''\<rparr>
               (image_flag fl)]
        \<and> (disks_insert w = (op, Some e') # os \<longrightarrow>
             getOrCreateRootDisk fl cloud name zone w =
               (Returned ('''', Some e'), disk_insert_issued fl cloud zone ds os w))
        \<and> (disks_insert w = (Some v, None) # os \<longrightarrow>
             (waitForOp cloud (Some v) zone (disk_insert_issued fl cloud zone ds os w) =
                (Returned None, w3) \<longrightarrow>
              getOrCreateRootDisk fl cloud name zone w = (Returned (op_TargetLink v, None), w3))
             \<and> (waitForOp cloud (Some v) zone (disk_insert_issued fl cloud zone ds os w) =
                  (Returned (Some e''), w3) \<longrightarrow>
                getOrCreateRootDisk fl cloud name zone w = (Returned ('''', Some e''), w3))))"
proof (intro conjI impI)
  assume "disks_get w = (d, Some e) # ds"
  then show "filter is_DisksInsert (trace (snd (getOrCreateRootDisk fl cloud name zone w))) =
          filter is_DisksInsert (trace w) @
            [DisksInsert (projectId cloud) zone \<lparr>disk_Name = diskName fl, disk_SelfLink = ''''\<rparr>
               (image_flag fl)]"
    by (rule getOrCreateRootDisk_one_insert)
qed (simp_all add: getOrCreateRootDisk_def Disks_Get_def Disks_Insert_def emit_def andThen_simps)

theorem getOrCreateRootDisk_lookup_then_one_insert_witness:
  "getOrCreateRootDisk default_gce_flags example_cloud ''docker-root'' ''us-central1-a''
     (quiet_world\<lparr>disks_get :=
        [(Some existing_disk, None)]\<rparr>) =
     (Returned (''zones/us-central1-a/disks/docker-root'', None),
      quiet_world\<lparr>trace := [DisksGet ''my-project'' ''us-central1-a'' ''docker-root'']\<rparr>)
   \<and> getOrCreateRootDisk default_gce_flags example_cloud ''docker-root'' ''us-central1-a''
     (quiet_world\<lparr>disks_get := [(None, Some (ApiError ''notFound''))],
                   disks_insert := [(Some (op_with_status ''PENDING''), None)],
                   zoneops_get := [(Some (op_with_status ''RUNNING''), None),
                                   (Some (op_with_status ''DONE''), None)]\<rparr>) =
     (Returned (''zones/us-central1-a/disks/docker-root'', None),
      quiet_world\<lparr>trace :=
        [DisksGet ''my-project'' ''us-central1-a'' ''docker-root'',
         DisksInsert ''my-project'' ''us-central1-a''
           \<lparr>disk_Name = ''docker-root'', disk_SelfLink = ''''\<rparr> (image_flag default_gce_flags),
         ZoneOperationsGet ''my-project'' ''us-central1-a'' ''operation-1'', Sleep 5,
         ZoneOperationsGet ''my-project'' ''us-central1-a'' ''operation-1'']\<rparr>)"
proof -
  let ?d = existing_disk
  let ?wa = "quiet_world\<lparr>disks_get := [(Some ?d, None)]\<rparr>"
  let ?wb = "quiet_world\<lparr>disks_get := [(None, Some (ApiError ''notFound''))],
                   disks_insert := [(Some (op_with_status ''PENDING''), None)],
                   zoneops_get := [(Some (op_with_status ''RUNNING''), None),
                                   (Some (op_with_status ''DONE''), None)]\<rparr>"
  let ?w3 = "quiet_world\<lparr>trace :=
        [DisksGet ''my-project'' ''us-central1-a'' ''docker-root'',
         DisksInsert ''my-project'' ''us-central1-a''
           \<lparr>disk_Name = ''docker-root'', disk_SelfLink = ''''\<rparr> (image_flag default_gce_flags),
         ZoneOperationsGet ''my-project'' ''us-central1-a'' ''operation-1'', Sleep 5,
         ZoneOperationsGet ''my-project'' ''us-central1-a'' ''operation-1'']\<rparr>"
  have wait: "waitForOp example_cloud (Some (op_with_status ''PENDING'')) ''us-central1-a''
                (disk_insert_issued default_gce_flags example_cloud ''us-central1-a'' [] [] ?wb) =
              (Returned None, ?w3)"
    by (simp add: waitForOp_first waitLoop_step waitLoop_done quiet_world_def example_cloud_def
                  op_with_status_def default_gce_flags_def)
  from getOrCreateRootDisk_lookup_then_one_insert [of ?wa ?d "[]" default_gce_flags example_cloud
         "''docker-root''" "''us-central1-a''"]
       getOrCreateRootDisk_lookup_then_one_insert [of ?wb _ "[]" default_gce_flags example_cloud
         "''docker-root''" "''us-central1-a''" None "ApiError ''notFound''" _ _ "[]"
         "op_with_status ''PENDING''" ?w3]
       wait
  show ?thesis
    by (simp add: quiet_world_def example_cloud_def default_gce_flags_def op_with_status_def
                  existing_disk_def)
qed

subsection \<open>The instance manager\<close>

text \<open>
  Claim C4. Whenever \<^verbatim>\<open>CreateInstance\<close> succeeds, the public address it returns is
  the empty string: it is read from the first access configuration of the request that
  was built, and \<^verbatim>\<open>NatIP\<close> is not set there.
\<close>

theorem CreateInstance_returns_empty_address:
  "fst (CreateInstance fl cloud name zone w) = Returned (ip, None) \<Longrightarrow> ip = ''''"
  by (auto simp: CreateInstance_def andThen_def first_NatIP_def new_instance_def Let_def
           split: prod.splits outcome.splits if_splits)

theorem CreateInstance_returns_empty_address_witness:
  "fst (CreateInstance default_gce_flags example_cloud ''docker-instance'' ''us-central1-a''
          created_world) = Returned ('''', None)"
proof -
  obtain ip where h:
    "fst (CreateInstance default_gce_flags example_cloud ''docker-instance'' ''us-central1-a''
            created_world) = Returned (ip, None)"
    by (simp add: CreateInstance_def getOrCreateRootDisk_def Disks_Get_def Instances_Insert_def
                  emit_def andThen_simps waitForOp_first waitLoop_done first_NatIP_def
                  new_instance_def Let_def time_Sleep_def
                  created_world_def existing_disk_def quiet_world_def example_cloud_def op_with_status_def)
  from CreateInstance_returns_empty_address [OF h] h show ?thesis
    by simp
qed

text \<open>
  Claim C9. When obtaining the root disk reference fails, \<^verbatim>\<open>CreateInstance\<close> returns
  that error with an empty address, in the world the disk manager left: no instance
  insert (and no instance delete) has been issued.
\<close>

theorem CreateInstance_disk_failure:
  assumes "getOrCreateRootDisk fl cloud (diskName fl) zone w = (Returned (rootDisk, Some e), w1)"
  shows "CreateInstance fl cloud name zone w = (Returned ('''', Some e), w1)
         \<and> filter is_instance_mutation (trace w1) = filter is_instance_mutation (trace w)"
proof
  from assms show "CreateInstance fl cloud name zone w = (Returned ('''', Some e), w1)"
    by (simp add: CreateInstance_def andThen_simps)
  have "filter is_instance_mutation (trace (snd (getOrCreateRootDisk fl cloud (diskName fl) zone w))) =
        filter is_instance_mutation (trace w)"
    by (rule getOrCreateRootDisk_frame) simp_all
  with assms show "filter is_instance_mutation (trace w1) = filter is_instance_mutation (trace w)"
    by simp
qed

theorem CreateInstance_disk_failure_witness:
  "CreateInstance default_gce_flags example_cloud ''docker-instance'' ''us-central1-a''
     (quiet_world\<lparr>disks_get := [(None, Some (ApiError ''notFound''))],
                   disks_insert := [(None, Some (ApiError ''quotaExceeded''))]\<rparr>) =
     (Returned ('''', Some (ApiError ''quotaExceeded'')),
      quiet_world\<lparr>trace :=
        [DisksGet ''my-project'' ''us-central1-a'' ''docker-root'',
         DisksInsert ''my-project'' ''us-central1-a''
           \<lparr>disk_Name = ''docker-root'', disk_SelfLink = ''''\<rparr> (image_flag default_gce_flags)]\<rparr>)"
proof -
  let ?w = "quiet_world\<lparr>disks_get := [(None, Some (ApiError ''notFound''))],
                   disks_insert := [(None, Some (ApiError ''quotaExceeded''))]\<rparr>"
  let ?w1 = "quiet_world\<lparr>trace :=
        [DisksGet ''my-project'' ''us-central1-a'' ''docker-root'',
         DisksInsert ''my-project'' ''us-central1-a''
           \<lparr>disk_Name = ''docker-root'', disk_SelfLink = ''''\<rparr> (image_flag default_gce_flags)]\<rparr>"
  have h: "getOrCreateRootDisk default_gce_flags example_cloud (diskName default_gce_flags)
             ''us-central1-a'' ?w = (Returned ('''', Some (ApiError ''quotaExceeded'')), ?w1)"
    by (simp add: getOrCreateRootDisk_def Disks_Get_def Disks_Insert_def emit_def andThen_simps
                  quiet_world_def example_cloud_def default_gce_flags_def)
  from CreateInstance_disk_failure [OF h, of "''docker-instance''"] show ?thesis
    by simp
qed

text \<open>
  Claim C10 says that every \<^verbatim>\<open>DeleteInstance\<close> call issues an instance delete call
  followed by one operation wait. When the delete call itself returns an error, as for an
  instance that is absent, the error is returned at once and nothing is polled: the
  answer the provider holds ready for a status fetch is left unused.
\<close>

theorem DeleteInstance_delete_error_no_wait:
  "DeleteInstance example_cloud ''docker-instance'' ''us-central1-a''
     (quiet_world\<lparr>instances_delete := [(None, Some (ApiError ''notFound''))],
                   zoneops_get := [(Some (op_with_status ''DONE''), None)]\<rparr>) =
   (Returned (Some (ApiError ''notFound'')),
    quiet_world\<lparr>zoneops_get := [(Some (op_with_status ''DONE''), None)],
                  trace := [InstancesDelete ''my-project'' ''us-central1-a'' ''docker-instance'']\<rparr>)"
  by (simp add: DeleteInstance_def Instances_Delete_def emit_def andThen_simps quiet_world_def
                example_cloud_def)

text \<open>
  Claim C10, amended. The only mutation that any \<^verbatim>\<open>DeleteInstance\<close> call issues is one
  instance delete call; in particular no call deletes or creates a disk. When the delete
  call returns an error, that error is returned and no operation wait takes place; when
  it returns an operation without error, one operation wait on it follows and its result
  is returned.
\<close>

theorem DeleteInstance_only_deletes_instance:
  "filter is_mutation (trace (snd (DeleteInstance cloud name zone w))) =
     filter is_mutation (trace w) @ [InstancesDelete (projectId cloud) zone name]
   \<and> (instances_delete w = (op, Some e) # rest \<longrightarrow>
        DeleteInstance cloud name zone w =
          (Returned (Some e),
           w\<lparr>instances_delete := rest,
             trace := trace w @ [InstancesDelete (projectId cloud) zone name]\<rparr>))
   \<and> (instances_delete w = (op, None) # rest \<longrightarrow>
        DeleteInstance cloud name zone w =
          waitForOp cloud op zone
            (w\<lparr>instances_delete := rest,
               trace := trace w @ [InstancesDelete (projectId cloud) zone name]\<rparr>))"
proof (intro conjI impI)
  show "filter is_mutation (trace (snd (DeleteInstance cloud name zone w))) =
     filter is_mutation (trace w) @ [InstancesDelete (projectId cloud) zone name]"
  proof (cases "instances_delete w")
    case Nil
    then show ?thesis
      by (simp add: DeleteInstance_def Instances_Delete_def emit_def andThen_simps)
  next
    case (Cons r rest)
    obtain op err where "r = (op, err)" by (cases r)
    with Cons show ?thesis
      by (simp add: DeleteInstance_def Instances_Delete_def emit_def andThen_simps
                    waitForOp_frame)
  qed
qed (simp_all add: DeleteInstance_def Instances_Delete_def emit_def andThen_simps)

theorem DeleteInstance_only_deletes_instance_witness:
  "filter is_mutation (trace (snd (DeleteInstance example_cloud ''docker-instance'' ''us-central1-a''
      (quiet_world\<lparr>instances_delete := [(Some (op_with_status ''PENDING''), None)],
                    zoneops_get := [(Some (op_with_status ''RUNNING''), None),
                                    (Some (op_with_status ''DONE''), None)]\<rparr>)))) =
     [InstancesDelete ''my-project'' ''us-central1-a'' ''docker-instance'']
   \<and> DeleteInstance example_cloud ''docker-instance'' ''us-central1-a''
      (quiet_world\<lparr>instances_delete := [(Some (op_with_status ''PENDING''), None)],
                    zoneops_get := [(Some (op_with_status ''RUNNING''), None),
                                    (Some (op_with_status ''DONE''), None)]\<rparr>) =
     (Returned None,
      quiet_world\<lparr>trace :=
        [InstancesDelete ''my-project'' ''us-central1-a'' ''docker-instance'',
         ZoneOperationsGet ''my-project'' ''us-central1-a'' ''operation-1'', Sleep 5,
         ZoneOperationsGet ''my-project'' ''us-central1-a'' ''operation-1'']\<rparr>)
   \<and> DeleteInstance example_cloud ''docker-instance'' ''us-central1-a''
      (quiet_world\<lparr>instances_delete := [(None, Some (ApiError ''notFound''))]\<rparr>) =
     (Returned (Some (ApiError ''notFound'')),
      quiet_world\<lparr>trace := [InstancesDelete ''my-project'' ''us-central1-a'' ''docker-instance'']\<rparr>)"
  using
    DeleteInstance_only_deletes_instance [of example_cloud "''docker-instance''" "''us-central1-a''"
      "quiet_world\<lparr>instances_delete := [(Some (op_with_status ''PENDING''), None)],
                    zoneops_get := [(Some (op_with_status ''RUNNING''), None),
                                    (Some (op_with_status ''DONE''), None)]\<rparr>"
      "Some (op_with_status ''PENDING'')" _ "[]"]
    DeleteInstance_only_deletes_instance [of example_cloud "''docker-instance''" "''us-central1-a''"
      "quiet_world\<lparr>instances_delete := [(None, Some (ApiError ''notFound''))]\<rparr>"
      None "ApiError ''notFound''" "[]"]
  by (simp add: waitForOp_first waitLoop_step waitLoop_done quiet_world_def example_cloud_def
                op_with_status_def)

subsection \<open>The tunnel launcher\<close>

text \<open>
  Claim C8. If the address resolution fails, \<^verbatim>\<open>OpenSecureTunnel\<close> returns the
  resolution error and runs no subprocess. If the resolution succeeds, the call never
  returns an error: whatever \<^verbatim>\<open>cmd.Run()\<close> reports, the process handle is returned
  with a nil error.
\<close>

theorem OpenSecureTunnel_errors:
  "(GetPublicIPAddress cloud name zone w = (Returned (ip, Some e), w1) \<longrightarrow>
      OpenSecureTunnel cloud name zone localPort remotePort w = (Returned (None, Some e), w1)
      \<and> filter is_ExecRun (trace w1) = filter is_ExecRun (trace w))
   \<and> (GetPublicIPAddress cloud name zone w = (Returned (ip, None), w1) \<longrightarrow>
      fst (OpenSecureTunnel cloud name zone localPort remotePort w) \<noteq> Returned (process, Some e')
      \<and> (exec_run w1 = r # rs \<longrightarrow>
           OpenSecureTunnel cloud name zone localPort remotePort w =
             (Returned (run_Process r, None),
              w1\<lparr>exec_run := rs,
                 trace := trace w1 @
                   [ExecRun ''ssh''
                      (strings_Split
                         (sshCommand (environ w1 ''HOME'') (environ w1 ''USER'') ip localPort
                            ''localhost'' remotePort) CHR '' '')]\<rparr>)))"
proof (intro conjI impI)
  assume h: "GetPublicIPAddress cloud name zone w = (Returned (ip, Some e), w1)"
  then show "OpenSecureTunnel cloud name zone localPort remotePort w = (Returned (None, Some e), w1)"
    by (simp add: OpenSecureTunnel_def openSecureTunnel_def andThen_simps)
  from GetPublicIPAddress_trace [of cloud name zone w] h
  show "filter is_ExecRun (trace w1) = filter is_ExecRun (trace w)"
    by simp
next
  assume h: "GetPublicIPAddress cloud name zone w = (Returned (ip, None), w1)"
  then show "fst (OpenSecureTunnel cloud name zone localPort remotePort w) \<noteq> Returned (process, Some e')"
    by (cases "exec_run w1")
       (simp_all add: OpenSecureTunnel_def openSecureTunnel_def andThen_simps cmd_Run_def Let_def)
next
  assume "GetPublicIPAddress cloud name zone w = (Returned (ip, None), w1)"
    and "exec_run w1 = r # rs"
  then show "OpenSecureTunnel cloud name zone localPort remotePort w =
             (Returned (run_Process r, None),
              w1\<lparr>exec_run := rs,
                 trace := trace w1 @
                   [ExecRun ''ssh''
                      (strings_Split
                         (sshCommand (environ w1 ''HOME'') (environ w1 ''USER'') ip localPort
                            ''localhost'' remotePort) CHR '' '')]\<rparr>)"
    by (simp add: OpenSecureTunnel_def openSecureTunnel_def andThen_simps cmd_Run_def Let_def emit_def)
qed

theorem OpenSecureTunnel_errors_witness:
  "OpenSecureTunnel example_cloud ''docker-instance'' ''us-central1-a'' 8001 8000
     (quiet_world\<lparr>instances_get := [(None, Some (ApiError ''notFound''))],
                   exec_run := [ssh_failed]\<rparr>) =
     (Returned (None, Some (ApiError ''notFound'')),
      quiet_world\<lparr>exec_run := [ssh_failed],
        trace := [InstancesGet ''my-project'' ''us-central1-a'' ''docker-instance'']\<rparr>)
   \<and> OpenSecureTunnel example_cloud ''docker-instance'' ''us-central1-a'' 8001 8000
     (quiet_world\<lparr>instances_get := [(Some (instance_with_address ''203.0.113.7''), None)],
                   exec_run := [ssh_failed]\<rparr>) =
     (Returned (None, None),
      quiet_world\<lparr>trace :=
        [InstancesGet ''my-project'' ''us-central1-a'' ''docker-instance'',
         ExecRun ''ssh'' (example_ssh_args ''203.0.113.7'')]\<rparr>)"
proof -
  let ?wa = "quiet_world\<lparr>instances_get := [(None, Some (ApiError ''notFound''))],
                   exec_run := [ssh_failed]\<rparr>"
  let ?wa1 = "quiet_world\<lparr>exec_run := [ssh_failed],
        trace := [InstancesGet ''my-project'' ''us-central1-a'' ''docker-instance'']\<rparr>"
  let ?wb = "quiet_world\<lparr>instances_get := [(Some (instance_with_address ''203.0.113.7''), None)],
                   exec_run := [ssh_failed]\<rparr>"
  have ha: "GetPublicIPAddress example_cloud ''docker-instance'' ''us-central1-a'' ?wa =
              (Returned ('''', Some (ApiError ''notFound'')), ?wa1)"
    by (simp add: GetPublicIPAddress_answered Let_def quiet_world_def example_cloud_def)
  have hb: "GetPublicIPAddress example_cloud ''docker-instance'' ''us-central1-a'' ?wb =
              (Returned (''203.0.113.7'', None), ?wa1)"
    by (simp add: GetPublicIPAddress_answered first_NatIP_def Let_def quiet_world_def
                  example_cloud_def instance_with_address_def)
  have hr: "exec_run ?wa1 = ssh_failed # []" by simp
  from OpenSecureTunnel_errors [of example_cloud "''docker-instance''" "''us-central1-a''" ?wa
         "''''" "ApiError ''notFound''" ?wa1 8001 8000] ha
       OpenSecureTunnel_errors [of example_cloud "''docker-instance''" "''us-central1-a''" ?wb
         "''203.0.113.7''" _ ?wa1 8001 8000 _ _ ssh_failed "[]"] hb hr
  show ?thesis
    by (simp add: quiet_world_def ssh_failed_def example_args)
qed

subsection \<open>The orchestrator\<close>

text \<open>
  Claim C6 says that \<^verbatim>\<open>start\<close>, after an initial address query with a non-empty
  answer, launches the tunnel with that address. The address is dropped, and the tunnel
  launcher resolves it again: a second lookup with another answer sends the tunnel
  there, and a second lookup that fails ends the process with no tunnel launched.
\<close>

theorem start_tunnel_uses_second_lookup:
  "start default_gce_flags default_main_flags example_cloud
     (quiet_world\<lparr>instances_get :=
         [(Some (instance_with_address ''203.0.113.7''), None),
          (Some (instance_with_address ''198.51.100.9''), None)],
        exec_run := [ssh_started]\<rparr>) =
     (Blocked,
      quiet_world\<lparr>trace :=
        [InstancesGet ''my-project'' ''us-central1-a'' ''docker-instance'',
         InstancesGet ''my-project'' ''us-central1-a'' ''docker-instance'',
         ExecRun ''ssh'' (example_ssh_args ''198.51.100.9'')]\<rparr>)
   \<and> start default_gce_flags default_main_flags example_cloud
     (quiet_world\<lparr>instances_get :=
         [(Some (instance_with_address ''203.0.113.7''), None),
          (None, Some (ApiError ''rateLimitExceeded''))],
        exec_run := [ssh_started]\<rparr>) =
     (Exited 1,
      quiet_world\<lparr>exec_run := [ssh_started],
        trace :=
        [InstancesGet ''my-project'' ''us-central1-a'' ''docker-instance'',
         InstancesGet ''my-project'' ''us-central1-a'' ''docker-instance'']\<rparr>)"
  by (simp add: start_def GetOrCreateInstance_def OpenSecureTunnel_def openSecureTunnel_def
                GetPublicIPAddress_answered first_NatIP_def andThen_simps cmd_Run_def emit_def
                Let_def example_args
                quiet_world_def example_cloud_def default_main_flags_def instance_with_address_def)

text \<open>
  Claim C6, amended. When the initial public address query of \<^verbatim>\<open>start\<close> returns a
  non-empty address, no disk insert and no instance insert is issued, and \<^verbatim>\<open>start\<close>
  goes on directly to the tunnel launcher. The launcher looks the address up a second
  time: the tunnel is launched with the address of that second lookup, and when the
  second lookup fails the process exits with status 1 and no tunnel is launched.
\<close>

theorem start_with_running_instance:
  assumes "GetPublicIPAddress cloud (instanceName mf) (zone_flag mf) w = (Returned (ip, err), w1)"
    and "ip \<noteq> ''''"
  shows "filter is_create (trace (snd (start fl mf cloud w))) = filter is_create (trace w)
     \<and> start fl mf cloud w =
         andThen (OpenSecureTunnel cloud (instanceName mf) (zone_flag mf) (tunnelPort mf) (dockerPort mf) w1)
           (\<lambda>(process, err) w2. if err \<noteq> None then (Exited 1, w2) else (Blocked, w2))
     \<and> (GetPublicIPAddress cloud (instanceName mf) (zone_flag mf) w1 = (Returned (ip2, None), w2)
          \<and> exec_run w2 = r # rs \<longrightarrow>
        start fl mf cloud w =
          (Blocked,
           w2\<lparr>exec_run := rs,
              trace := trace w2 @
                [ExecRun ''ssh''
                   (strings_Split
                      (sshCommand (environ w2 ''HOME'') (environ w2 ''USER'') ip2 (tunnelPort mf)
                         ''localhost'' (dockerPort mf)) CHR '' '')]\<rparr>))
     \<and> (GetPublicIPAddress cloud (instanceName mf) (zone_flag mf) w1 = (Returned (ip2, Some e), w2) \<longrightarrow>
        start fl mf cloud w = (Exited 1, w2)
        \<and> filter is_ExecRun (trace w2) = filter is_ExecRun (trace w))"
proof -
  have err: "err = None"
    using assms GetPublicIPAddress_error_empty [of cloud "instanceName mf" "zone_flag mf" w ip _ w1]
    by (cases err) auto
  have st: "start fl mf cloud w =
         andThen (OpenSecureTunnel cloud (instanceName mf) (zone_flag mf) (tunnelPort mf) (dockerPort mf) w1)
           (\<lambda>(process, err) w2. if err \<noteq> None then (Exited 1, w2) else (Blocked, w2))"
    using assms err by (simp add: start_def GetOrCreateInstance_def andThen_simps Let_def)
  have w1: "filter P (trace w1) = filter P (trace w)" if "\<And>p z n. \<not> P (InstancesGet p z n)" for P
    using GetPublicIPAddress_trace [of cloud "instanceName mf" "zone_flag mf" w] assms(1) that
    by simp
  let ?t = "OpenSecureTunnel cloud (instanceName mf) (zone_flag mf) (tunnelPort mf) (dockerPort mf) w1"
  have "filter is_create (trace (snd ?t)) = filter is_create (trace w1)"
    by (rule OpenSecureTunnel_frame) simp_all
  then have tun: "filter is_create (trace (snd ?t)) = filter is_create (trace w)"
    by (simp add: w1)
  have c1: "filter is_create (trace (snd (start fl mf cloud w))) = filter is_create (trace w)"
  proof -
    obtain res wt where t: "?t = (res, wt)" by (cases ?t)
    with tun have "filter is_create (trace wt) = filter is_create (trace w)" by simp
    with t show ?thesis
      unfolding st by (cases res) (auto simp: andThen_simps split: prod.splits)
  qed
  have c3: "start fl mf cloud w =
          (Blocked,
           w2\<lparr>exec_run := rs,
              trace := trace w2 @
                [ExecRun ''ssh''
                   (strings_Split
                      (sshCommand (environ w2 ''HOME'') (environ w2 ''USER'') ip2 (tunnelPort mf)
                         ''localhost'' (dockerPort mf)) CHR '' '')]\<rparr>)"
    if "GetPublicIPAddress cloud (instanceName mf) (zone_flag mf) w1 = (Returned (ip2, None), w2)"
      and "exec_run w2 = r # rs"
    unfolding st using that
    by (simp add: OpenSecureTunnel_def openSecureTunnel_def andThen_simps cmd_Run_def emit_def Let_def)
  have c4: "start fl mf cloud w = (Exited 1, w2)
        \<and> filter is_ExecRun (trace w2) = filter is_ExecRun (trace w)"
    if h: "GetPublicIPAddress cloud (instanceName mf) (zone_flag mf) w1 = (Returned (ip2, Some e), w2)"
  proof
    show "start fl mf cloud w = (Exited 1, w2)"
      unfolding st using h
      by (simp add: OpenSecureTunnel_def openSecureTunnel_def andThen_simps)
    from GetPublicIPAddress_trace [of cloud "instanceName mf" "zone_flag mf" w1] h
    have "filter is_ExecRun (trace w2) = filter is_ExecRun (trace w1)" by simp
    then show "filter is_ExecRun (trace w2) = filter is_ExecRun (trace w)"
      by (simp add: w1)
  qed
  from c1 st c3 c4 show ?thesis by blast
qed

theorem start_with_running_instance_witness:
  "filter is_create (trace (snd (start default_gce_flags default_main_flags example_cloud
     (quiet_world\<lparr>instances_get :=
         [(Some (instance_with_address ''203.0.113.7''), None),
          (Some (instance_with_address ''203.0.113.7''), None)],
        exec_run := [ssh_started]\<rparr>)))) = []
   \<and> start default_gce_flags default_main_flags example_cloud
     (quiet_world\<lparr>instances_get :=
         [(Some (instance_with_address ''203.0.113.7''), None),
          (Some (instance_with_address ''203.0.113.7''), None)],
        exec_run := [ssh_started]\<rparr>) =
     (Blocked,
      quiet_world\<lparr>trace :=
        [InstancesGet ''my-project'' ''us-central1-a'' ''docker-instance'',
         InstancesGet ''my-project'' ''us-central1-a'' ''docker-instance'',
         ExecRun ''ssh'' (example_ssh_args ''203.0.113.7'')]\<rparr>)"
proof -
  let ?i = "(Some (instance_with_address ''203.0.113.7''), None)"
  let ?w = "quiet_world\<lparr>instances_get := [?i, ?i], exec_run := [ssh_started]\<rparr>"
  let ?w1 = "quiet_world\<lparr>instances_get := [?i], exec_run := [ssh_started],
               trace := [InstancesGet ''my-project'' ''us-central1-a'' ''docker-instance'']\<rparr>"
  let ?w2 = "quiet_world\<lparr>exec_run := [ssh_started],
               trace := [InstancesGet ''my-project'' ''us-central1-a'' ''docker-instance'',
                         InstancesGet ''my-project'' ''us-central1-a'' ''docker-instance'']\<rparr>"
  have h1: "GetPublicIPAddress example_cloud (instanceName default_main_flags)
              (zone_flag default_main_flags) ?w = (Returned (''203.0.113.7'', None), ?w1)"
    by (simp add: GetPublicIPAddress_answered first_NatIP_def Let_def quiet_world_def
                  example_cloud_def default_main_flags_def instance_with_address_def)
  have h2: "''203.0.113.7'' \<noteq> ''''" by simp
  have h3: "GetPublicIPAddress example_cloud (instanceName default_main_flags)
              (zone_flag default_main_flags) ?w1 = (Returned (''203.0.113.7'', None), ?w2)"
    by (simp add: GetPublicIPAddress_answered first_NatIP_def Let_def quiet_world_def
                  example_cloud_def default_main_flags_def instance_with_address_def)
  have h4: "exec_run ?w2 = ssh_started # []" by simp
  note t = start_with_running_instance [OF h1 h2, of default_gce_flags "''203.0.113.7''" ?w2 ssh_started "[]"]
  from t have c1: "filter is_create (trace (snd (start default_gce_flags default_main_flags example_cloud ?w))) =
                   filter is_create (trace ?w)"
    by (rule conjunct1)
  from t h3 h4 have c3: "start default_gce_flags default_main_flags example_cloud ?w =
          (Blocked,
           ?w2\<lparr>exec_run := [],
              trace := trace ?w2 @
                [ExecRun ''ssh''
                   (strings_Split
                      (sshCommand (environ ?w2 ''HOME'') (environ ?w2 ''USER'') ''203.0.113.7''
                         (tunnelPort default_main_flags) ''localhost''
                         (dockerPort default_main_flags)) CHR '' '')]\<rparr>)"
    by blast
  have "start default_gce_flags default_main_flags example_cloud ?w =
     (Blocked,
      quiet_world\<lparr>trace :=
        [InstancesGet ''my-project'' ''us-central1-a'' ''docker-instance'',
         InstancesGet ''my-project'' ''us-central1-a'' ''docker-instance'',
         ExecRun ''ssh'' (example_ssh_args ''203.0.113.7'')]\<rparr>)"
    unfolding c3 by (simp add: quiet_world_def default_main_flags_def example_args)
  moreover have "filter is_create (trace (snd (start default_gce_flags default_main_flags example_cloud ?w))) = []"
    unfolding c1 by (simp add: quiet_world_def)
  ultimately show ?thesis by simp
qed

end
